theory Spec2Isabelle
  imports Main "HOL-Library.Char_ord" "HOL-Library.Sublist"
begin

section \<open>The pairing flow of \<open>pair.js\<close>\<close>

text \<open>
  The source is one asynchronous function, \<open>generatePairingCodeAndConnect(req, res)\<close>,
  and the \<open>connection.update\<close> handler it registers on the socket. Both act on the
  Express response \<open>res\<close>, on the file system under \<open>./temp\<close>, on the socket and on
  the process. The model threads a record of that state (\<open>world\<close>) through every
  operation and appends each effect to a trace, in the order the source performs it.
  What the collaborators return (\<open>makeid\<close>, Baileys, the Mega upload) is not in the
  source: each call takes its result from an environment record, so every theorem holds
  for whatever they return.
\<close>

subsection \<open>Strings\<close>

text \<open>The character class \<open>[0-9]\<close> of the regular expression in line 40.\<close>

definition is_digit :: "char \<Rightarrow> bool" where
  "is_digit c = (CHR ''0'' \<le> c \<and> c \<le> CHR ''9'')"

text \<open>
  \<open>phoneNumber.replace(/[^0-9]/g, '')\<close> (line 40): the global flag visits every
  character, and each one outside \<open>[0-9]\<close> is replaced by the empty string.
\<close>

fun sanitize :: "string \<Rightarrow> string" where
  "sanitize [] = []"
| "sanitize (c # cs) = (if is_digit c then c # sanitize cs else [] @ sanitize cs)"

text \<open>
  \<open>s.replace(pat, rep)\<close> with a string pattern (line 98): the leftmost occurrence of
  \<open>pat\<close> in \<open>s\<close> is replaced, wherever it stands, and a string without an occurrence is
  returned as it is. (The replacement is the empty string in the source, so the \<open>$\<close>
  patterns of a replacement string do not arise.)
\<close>

fun js_replace :: "string \<Rightarrow> string \<Rightarrow> string \<Rightarrow> string" where
  "js_replace pat rep [] = (if pat = [] then rep else [])"
| "js_replace pat rep (c # cs) =
     (if prefix pat (c # cs) then rep @ drop (length pat) (c # cs)
      else c # js_replace pat rep cs)"

text \<open>\<open>occurs pat s\<close>: \<open>pat\<close> stands somewhere in \<open>s\<close> (\<open>s.includes(pat)\<close>).\<close>

fun occurs :: "string \<Rightarrow> string \<Rightarrow> bool" where
  "occurs pat [] = (pat = [])"
| "occurs pat (c # cs) = (prefix pat (c # cs) \<or> occurs pat cs)"

text \<open>The template literal of line 42.\<close>

definition sessionDirPath :: "string \<Rightarrow> string" where
  "sessionDirPath sessionId = ''./temp/'' @ sessionId"

text \<open>The template literal of line 81.\<close>

definition credsFilePath :: "string \<Rightarrow> string" where
  "credsFilePath dir = dir @ ''/creds.json''"

text \<open>Lines 98 and 99.\<close>

definition sessionString :: "string \<Rightarrow> string" where
  "sessionString megaUrl = js_replace ''https://mega.nz/file/'' [] megaUrl"

definition messageToSelf :: "string \<Rightarrow> string" where
  "messageToSelf megaUrl = ''RAHEEM-XMD-3>>>'' @ sessionString megaUrl"

subsection \<open>Values, effects and state\<close>

text \<open>
  A rejected promise or a thrown exception. \<open>ReferenceError\<close> and \<open>TypeError\<close> are
  raised by the JavaScript of the handler itself, \<open>Rejected\<close> by a collaborator.
\<close>

datatype exn = ReferenceError string | TypeError string | Rejected string

text \<open>
  The body \<open>{ code: ... }\<close> of a reply. The fixed messages of the source are
  constructors: \<open>PhoneRequired\<close> (line 36), \<open>CredsNotFound\<close> (line 87),
  \<open>UploadFailed\<close> (line 156), \<open>AuthFailed\<close> (line 180), \<open>Unavailable\<close> (line 191);
  \<open>Code c\<close> carries the pairing code of line 67.
\<close>

datatype payload =
    Code string | PhoneRequired | CredsNotFound | UploadFailed | AuthFailed | Unavailable

text \<open>
  What \<open>sock.sendMessage\<close> is given: the text of line 102, or the description of
  lines 109 to 142, whose only variable parts are the time and the date.
\<close>

datatype content = Text string | BotDescription string string

datatype event_name = CredsUpdate | ConnectionUpdate

text \<open>
  The effects, one constructor per call of the source: \<open>Send status body\<close> is
  \<open>res.status(status).send(body)\<close> (status 200 when the source sets none),
  \<open>On dir ev\<close> is \<open>sock.ev.on(ev, ...)\<close> on the socket of workspace \<open>dir\<close>,
  \<open>Upload path name\<close> is \<open>upload(fs.createReadStream(path), name)\<close>,
  \<open>SendMessage jid c quoted\<close> is \<open>sock.sendMessage(jid, c, {quoted})\<close>,
  \<open>WsClose dir\<close> is \<open>sock.ws.close()\<close>, \<open>RmSync path\<close> is the \<open>fs.rmSync\<close> of
  \<open>removeFile\<close>, \<open>ProcessExit code\<close> is \<open>process.exit(code)\<close>, where \<open>None\<close> is the
  call without an argument (Node then exits with its default code 0, success).
\<close>

datatype action =
    MakeId string
  | Send nat payload
  | UseMultiFileAuthState string
  | MakeWASocket string
  | Delay nat
  | RequestPairingCode string
  | On string event_name
  | Upload string string
  | SendMessage string content "string option"
  | WsClose string
  | RmSync string
  | ConsoleLog
  | ConsoleError
  | ProcessExit "nat option"

text \<open>
  \<open>headersSent\<close> is \<open>res.headersSent\<close>; \<open>files\<close> the paths that exist;
  \<open>listeners\<close> the workspaces of the sockets that carry a \<open>connection.update\<close>
  handler, in the order of registration; \<open>exited\<close> whether \<open>process.exit\<close> was called.
\<close>

record world =
  headersSent :: bool
  files :: "string set"
  listeners :: "string list"
  exited :: bool
  trace :: "action list"

text \<open>
  The results of the collaborators during one invocation of
  \<open>generatePairingCodeAndConnect\<close>: the id from \<open>makeid()\<close>, the outcome of
  \<open>useMultiFileAuthState\<close> (\<open>Inr\<close> the \<open>registered\<close> flag held in the \<open>creds.json\<close> of
  the workspace, which counts only when that file exists), whether \<open>makeWASocket\<close>
  throws, and the outcome of \<open>sock.requestPairingCode\<close>.
\<close>

record attempt_env =
  makeid :: string
  useMultiFileAuthState :: "exn + bool"
  makeWASocket :: "exn option"
  requestPairingCode :: "exn + string"

text \<open>
  The results of the collaborators during one run of the export: \<open>sock.user.id\<close>, the
  outcome of \<open>upload\<close> (\<open>Inr\<close> the locator), of the first \<open>sendMessage\<close> (\<open>Inr\<close> the
  sent message, here its id) and of the second, and the two formatted dates.
\<close>

record export_env =
  user_id :: string
  upload :: "exn + string"
  sendMessage1 :: "exn + string"
  sendMessage2 :: "exn + unit"
  tanzaniaTime :: string
  tanzaniaDate :: string

text \<open>
  The argument of the handler. \<open>lastDisconnect.error\<close> is a Boom error, with
  \<open>output.statusCode\<close> and a message, or an error without \<open>output\<close>.
\<close>

datatype connection = Open | Close | Connecting

datatype disconnect_error = Boom int string | PlainError string

record last_disconnect =
  error :: "disconnect_error option"

record update =
  connection :: "connection option"
  lastDisconnect :: "last_disconnect option"

text \<open>How a run of the handler ends: it returns, it throws, or the process exits.\<close>

datatype outcome = Returned | Threw exn | Exited

subsection \<open>Primitive operations\<close>

definition emit :: "action \<Rightarrow> world \<Rightarrow> world" where
  "emit a w = w\<lparr>trace := trace w @ [a]\<rparr>"

text \<open>
  \<open>res.status(status).send(body)\<close>. Express sets \<open>headersSent\<close>; the model writes the
  reply whether or not one was written before, so that a second reply would show in the
  trace.
\<close>

definition res_send :: "nat \<Rightarrow> payload \<Rightarrow> world \<Rightarrow> world" where
  "res_send status body w = emit (Send status body) (w\<lparr>headersSent := True\<rparr>)"

definition existsSync :: "string \<Rightarrow> world \<Rightarrow> bool" where
  "existsSync path w = (path \<in> files w)"

text \<open>\<open>inside dir path\<close>: \<open>path\<close> is \<open>dir\<close> or lies below it.\<close>

definition inside :: "string \<Rightarrow> string \<Rightarrow> bool" where
  "inside dir path = (path = dir \<or> prefix (dir @ ''/'') path)"

text \<open>\<open>fs.rmSync(path, { recursive: true, force: true })\<close>.\<close>

definition rmSync :: "string \<Rightarrow> world \<Rightarrow> world" where
  "rmSync path w =
     emit (RmSync path) (w\<lparr>files := Set.filter (\<lambda>q. \<not> inside path q) (files w)\<rparr>)"

text \<open>\<open>removeFile\<close>, lines 15 to 21.\<close>

definition removeFile :: "string \<Rightarrow> world \<Rightarrow> bool \<times> world" where
  "removeFile filePath w =
     (if existsSync filePath w then (True, rmSync filePath w) else (False, w))"

text \<open>\<open>process.exit()\<close>, lines 151 and 182: called without an argument.\<close>

definition process_exit :: "world \<Rightarrow> world" where
  "process_exit w = emit (ProcessExit None) (w\<lparr>exited := True\<rparr>)"

text \<open>Lines 72 and 75: both listeners are registered on the socket of the workspace.\<close>

definition subscribe :: "string \<Rightarrow> world \<Rightarrow> world" where
  "subscribe dir w =
     (emit (On dir ConnectionUpdate) (emit (On dir CredsUpdate) w))
       \<lparr>listeners := listeners w @ [dir]\<rparr>"

subsection \<open>\<open>generatePairingCodeAndConnect\<close>\<close>

text \<open>The \<open>catch (err)\<close> block, lines 187 to 193.\<close>

definition setup_failed :: "string \<Rightarrow> world \<Rightarrow> world" where
  "setup_failed dir w =
     (let w1 = emit ConsoleError w;
          w2 = snd (removeFile dir w1)
      in if \<not> headersSent w2 then res_send 500 Unavailable w2 else w2)"

text \<open>
  Lines 29 to 194. \<open>number\<close> is \<open>req.query.number\<close>, \<open>None\<close> when the query has no
  such parameter. \<open>!phoneNumber\<close> holds for \<open>undefined\<close> and for the empty string.
  \<open>useMultiFileAuthState\<close> loads the credentials from \<open>creds.json\<close> in the workspace
  when that file exists and starts from new credentials, which are not registered,
  when it does not; when it succeeds it leaves the workspace directory in place.
  The \<open>return\<close> of line 67 ends the function: \<open>subscribe\<close> is reached only past it.
\<close>

definition generatePairingCodeAndConnect ::
  "string option \<Rightarrow> attempt_env \<Rightarrow> world \<Rightarrow> world" where
  "generatePairingCodeAndConnect number e w =
     (let sessionId = makeid e;
          w0 = emit (MakeId sessionId) w
      in case number of
           None \<Rightarrow> res_send 400 PhoneRequired w0
         | Some raw \<Rightarrow>
             (if raw = [] then res_send 400 PhoneRequired w0
              else
                (let phoneNumber = sanitize raw;
                     dir = sessionDirPath sessionId;
                     w1 = emit (UseMultiFileAuthState dir) w0
                 in case useMultiFileAuthState e of
                      Inl err \<Rightarrow> setup_failed dir w1
                    | Inr stored \<Rightarrow>
                        (let registered = (stored \<and> existsSync (credsFilePath dir) w1);
                             w2 = emit (MakeWASocket dir) (w1\<lparr>files := insert dir (files w1)\<rparr>)
                         in case makeWASocket e of
                              Some err \<Rightarrow> setup_failed dir w2
                            | None \<Rightarrow>
                                (if \<not> registered then
                                   (let w3 = emit (RequestPairingCode phoneNumber)
                                               (emit (Delay 1500) w2)
                                    in case requestPairingCode e of
                                         Inl err \<Rightarrow> setup_failed dir w3
                                       | Inr pairingCode \<Rightarrow>
                                           (if \<not> headersSent w3
                                            then res_send 200 (Code pairingCode) w3
                                            else subscribe dir w3))
                                 else subscribe dir w2)))))"

subsection \<open>The \<open>connection.update\<close> handler\<close>

text \<open>The \<open>catch (megaError)\<close> block, lines 153 to 160.\<close>

definition export_failed :: "string \<Rightarrow> world \<Rightarrow> world" where
  "export_failed dir w =
     (let w1 = emit ConsoleError w;
          w2 = (if \<not> headersSent w1 then res_send 500 UploadFailed w1 else w1);
          w3 = emit (WsClose dir) w2
      in snd (removeFile dir w3))"

text \<open>
  Line 85 builds its log message from \<open>cresFilePath\<close>. No such identifier is declared
  anywhere in the file (line 81 declares \<open>credsFilePath\<close>), so evaluating it throws a
  \<open>ReferenceError\<close>.
\<close>

definition cresFilePath :: "exn + string" where
  "cresFilePath = Inl (ReferenceError ''cresFilePath is not defined'')"

text \<open>
  The branch \<open>connection === "open"\<close>, lines 79 to 162. The block of lines 85 to 91
  stands before the \<open>try\<close> of line 94, so what line 85 throws ends the handler.
\<close>

definition on_open :: "string \<Rightarrow> export_env \<Rightarrow> world \<Rightarrow> outcome \<times> world" where
  "on_open dir x w =
     (let w1 = emit (Delay 5000) w in
      if \<not> existsSync (credsFilePath dir) w1
      then
        (case cresFilePath of
           Inl err \<Rightarrow> (Threw err, w1)
         | Inr path \<Rightarrow>
             (let w2 = emit ConsoleError w1;
                  w3 = (if \<not> headersSent w2 then res_send 500 CredsNotFound w2 else w2);
                  w4 = emit (WsClose dir) w3
              in (Returned, snd (removeFile dir w4))))
      else
        (let w2 = emit (Upload (credsFilePath dir) (user_id x @ ''.json'')) w1
         in case upload x of
              Inl err \<Rightarrow> (Returned, export_failed dir w2)
            | Inr megaUrl \<Rightarrow>
                (let w3 = emit (SendMessage (user_id x) (Text (messageToSelf megaUrl)) None) w2
                 in case sendMessage1 x of
                      Inl err \<Rightarrow> (Returned, export_failed dir w3)
                    | Inr sentMessage \<Rightarrow>
                        (let w4 = emit (SendMessage (user_id x)
                                         (BotDescription (tanzaniaTime x) (tanzaniaDate x))
                                         (Some sentMessage)) w3
                         in case sendMessage2 x of
                              Inl err \<Rightarrow> (Returned, export_failed dir w4)
                            | Inr u \<Rightarrow>
                                (let w5 = emit (Delay 100) w4;
                                     w6 = emit (WsClose dir) w5;
                                     w7 = snd (removeFile dir w6);
                                     w8 = emit ConsoleLog w7
                                 in (Exited, process_exit w8))))))"

text \<open>
  The branch \<open>connection === "close"\<close>, lines 164 to 184. Both conditions start with
  \<open>lastDisconnect && lastDisconnect.error\<close>; reading \<open>output.statusCode\<close> of an error
  without \<open>output\<close> throws a \<open>TypeError\<close>. The call of line 173 is the whole function
  again, with the same \<open>req\<close> and \<open>res\<close>.
\<close>

definition on_close ::
  "string option \<Rightarrow> string \<Rightarrow> last_disconnect option \<Rightarrow> attempt_env \<Rightarrow> world
    \<Rightarrow> outcome \<times> world" where
  "on_close number dir ld e w =
     (case ld of
        None \<Rightarrow> (Returned, w)
      | Some l \<Rightarrow>
          (case error l of
             None \<Rightarrow> (Returned, w)
           | Some (PlainError m) \<Rightarrow> (Threw (TypeError ''statusCode''), w)
           | Some (Boom statusCode m) \<Rightarrow>
               (if statusCode \<noteq> 401 then
                  (let w1 = emit ConsoleLog w;
                       w2 = snd (removeFile dir w1);
                       w3 = emit (Delay 2000) w2
                   in (Returned, generatePairingCodeAndConnect number e w3))
                else
                  (let w1 = emit ConsoleLog w;
                       w2 = snd (removeFile dir w1);
                       w3 = (if \<not> headersSent w2 then res_send 401 AuthFailed w2 else w2)
                   in (Exited, process_exit w3)))))"

text \<open>Lines 75 to 185: the handler of the socket whose workspace is \<open>dir\<close>.\<close>

definition connection_update ::
  "string option \<Rightarrow> string \<Rightarrow> update \<Rightarrow> export_env \<Rightarrow> attempt_env \<Rightarrow> world
    \<Rightarrow> outcome \<times> world" where
  "connection_update number dir u x e w =
     (case connection u of
        Some Open \<Rightarrow> on_open dir x w
      | Some Close \<Rightarrow> on_close number dir (lastDisconnect u) e w
      | Some Connecting \<Rightarrow> (Returned, w)
      | None \<Rightarrow> (Returned, w))"

subsection \<open>Whole runs of one request\<close>

text \<open>
  What happens to a request after the first invocation: the credentials of the socket
  registered as number \<open>k\<close> are saved (\<open>saveCreds\<close>, the listener of line 72, writes
  \<open>creds.json\<close> into the workspace), or that socket emits a \<open>connection.update\<close>.
  Nothing is delivered once the process has exited, or to a socket without listeners.
\<close>

datatype stimulus =
    CredsSaved nat
  | ConnUpdate nat update export_env attempt_env

fun deliver :: "string option \<Rightarrow> stimulus \<Rightarrow> world \<Rightarrow> world" where
  "deliver number (CredsSaved k) w =
     (if exited w \<or> length (listeners w) \<le> k then w
      else w\<lparr>files := insert (credsFilePath (listeners w ! k)) (files w)\<rparr>)"
| "deliver number (ConnUpdate k u x e) w =
     (if exited w \<or> length (listeners w) \<le> k then w
      else snd (connection_update number (listeners w ! k) u x e w))"

text \<open>The state in which Express hands over a request: nothing sent, no socket.\<close>

definition initial :: "string set \<Rightarrow> world" where
  "initial fs = \<lparr>headersSent = False, files = fs, listeners = [], exited = False, trace = []\<rparr>"

definition run :: "string option \<Rightarrow> string set \<Rightarrow> attempt_env \<Rightarrow> stimulus list \<Rightarrow> world" where
  "run number fs e stims =
     foldl (\<lambda>w s. deliver number s w) (generatePairingCodeAndConnect number e (initial fs)) stims"

text \<open>The replies written to \<open>res\<close>, in order.\<close>

fun is_Send :: "action \<Rightarrow> bool" where
  "is_Send (Send status body) = True"
| "is_Send a = False"

definition replies :: "world \<Rightarrow> action list" where
  "replies w = filter is_Send (trace w)"

text \<open>The calls of \<open>makeid\<close>: one per invocation of the function.\<close>

fun is_MakeId :: "action \<Rightarrow> bool" where
  "is_MakeId (MakeId sessionId) = True"
| "is_MakeId a = False"

definition invocations :: "world \<Rightarrow> nat" where
  "invocations w = length (filter is_MakeId (trace w))"

text \<open>\<open>!phoneNumber\<close>, the test of line 34.\<close>

definition missing :: "string option \<Rightarrow> bool" where
  "missing number = (number = None \<or> number = Some [])"

text \<open>
  One step of the whole system as the caller sees it: either nothing is written to
  \<open>res\<close>, or \<open>res\<close> was untouched and exactly one reply is written.
\<close>

definition guarded_step :: "world \<Rightarrow> world \<Rightarrow> bool" where
  "guarded_step w w' =
     ((headersSent w' = headersSent w \<and> replies w' = replies w) \<or>
      (\<not> headersSent w \<and> headersSent w' \<and> (\<exists>a. replies w' = replies w @ [a])))"

definition reply_inv :: "world \<Rightarrow> bool" where
  "reply_inv w = (length (replies w) \<le> 1 \<and> (headersSent w = (replies w \<noteq> [])))"

text \<open>
  Modelled from the spec: \<open>makeid\<close> (\<open>./gen-id\<close>) is not among the sources. The spec's
  data model calls the session id an "opaque unique token, generated once per attempt"
  and the workspace named after it "uniquely-named" and "fresh": the id was not drawn
  before for this request, and no workspace of its name exists, with or without
  credentials.
\<close>

definition fresh_id :: "world \<Rightarrow> string \<Rightarrow> bool" where
  "fresh_id w sessionId =
     (MakeId sessionId \<notin> set (trace w) \<and>
      sessionDirPath sessionId \<notin> files w \<and>
      credsFilePath (sessionDirPath sessionId) \<notin> files w)"

text \<open>Every id that the events of a run make \<open>makeid\<close> return is fresh when it is drawn.\<close>

fun fresh_stimulus :: "world \<Rightarrow> stimulus \<Rightarrow> bool" where
  "fresh_stimulus w (CredsSaved k) = True"
| "fresh_stimulus w (ConnUpdate k u x e) = fresh_id w (makeid e)"

fun fresh_stimuli :: "string option \<Rightarrow> world \<Rightarrow> stimulus list \<Rightarrow> bool" where
  "fresh_stimuli number w [] = True"
| "fresh_stimuli number w (s # ss) =
     (fresh_stimulus w s \<and> fresh_stimuli number (deliver number s w) ss)"

text \<open>A socket carries the handler only once the caller has had its reply.\<close>

definition replied_before_listening :: "world \<Rightarrow> bool" where
  "replied_before_listening w = (listeners w = [] \<or> headersSent w)"

subsection \<open>Concrete inputs\<close>

text \<open>
  A first attempt whose workspace already holds registered credentials, and a fresh
  attempt that is not registered and obtains a pairing code.
\<close>

definition env_registered :: attempt_env where
  "env_registered =
     \<lparr>makeid = ''AbCd'', useMultiFileAuthState = Inr True, makeWASocket = None,
      requestPairingCode = Inr ''WXYZ5678''\<rparr>"

definition env_unregistered :: attempt_env where
  "env_unregistered =
     \<lparr>makeid = ''EfGh'', useMultiFileAuthState = Inr False, makeWASocket = None,
      requestPairingCode = Inr ''ABCD1234''\<rparr>"

text \<open>A retry that draws the id \<open>IjKl\<close>, and one during which \<open>makeWASocket\<close> throws.\<close>

definition env_retry :: attempt_env where
  "env_retry =
     \<lparr>makeid = ''IjKl'', useMultiFileAuthState = Inr False, makeWASocket = None,
      requestPairingCode = Inr ''MNOP9012''\<rparr>"

definition env_socket_fails :: attempt_env where
  "env_socket_fails = env_retry\<lparr>makeWASocket := Some (Rejected ''ECONNREFUSED'')\<rparr>"

text \<open>The files of a workspace that was left on disk with its credentials.\<close>

definition leftover :: "string set" where
  "leftover = {''./temp/AbCd'', ''./temp/AbCd/creds.json''}"

text \<open>An export in which every collaborator succeeds, and one whose upload fails.\<close>

definition export_ok :: export_env where
  "export_ok =
     \<lparr>user_id = ''255700000000:1@s.whatsapp.net'',
      upload = Inr ''https://mega.nz/file/ABC123'',
      sendMessage1 = Inr ''3EB0MSG1'', sendMessage2 = Inr (),
      tanzaniaTime = ''10:00:00'', tanzaniaDate = ''02/11/2026''\<rparr>"

definition export_upload_fails :: export_env where
  "export_upload_fails = export_ok\<lparr>upload := Inl (Rejected ''EAGAIN'')\<rparr>"

definition open_update :: update where
  "open_update = \<lparr>connection = Some Open, lastDisconnect = None\<rparr>"

definition close_update :: "int \<Rightarrow> update" where
  "close_update statusCode =
     \<lparr>connection = Some Close,
      lastDisconnect = Some \<lparr>error = Some (Boom statusCode ''Connection Closed'')\<rparr>\<rparr>"

definition close_without_error :: update where
  "close_without_error = \<lparr>connection = Some Close, lastDisconnect = Some \<lparr>error = None\<rparr>\<rparr>"

text \<open>
  A request whose socket (workspace \<open>./temp/AbCd\<close>) carries the handler and has
  received no reply yet; in \<open>linked\<close> the credentials file has been saved as well.
\<close>

definition listening :: world where
  "listening =
     \<lparr>headersSent = False, files = {''./temp/AbCd''}, listeners = [''./temp/AbCd''],
      exited = False, trace = []\<rparr>"

definition linked :: world where
  "linked = listening\<lparr>files := {''./temp/AbCd'', ''./temp/AbCd/creds.json''}\<rparr>"

text \<open>
  A request that has been retried once: its first session started registered on the
  workspace left on disk, the export failed after the socket opened (reply 500), the
  socket closed with status 428, and the retry, on the new workspace \<open>./temp/EfGh\<close>,
  requested a pairing code and registered its handler.
\<close>

definition retried :: world where
  "retried =
     \<lparr>headersSent = True, files = {''./temp/EfGh''},
      listeners = [''./temp/AbCd'', ''./temp/EfGh''], exited = False,
      trace =
        [MakeId ''AbCd'', UseMultiFileAuthState ''./temp/AbCd'', MakeWASocket ''./temp/AbCd'',
         On ''./temp/AbCd'' CredsUpdate, On ''./temp/AbCd'' ConnectionUpdate,
         Delay 5000,
         Upload ''./temp/AbCd/creds.json'' ''255700000000:1@s.whatsapp.net.json'',
         ConsoleError, Send 500 UploadFailed, WsClose ''./temp/AbCd'', RmSync ''./temp/AbCd'',
         ConsoleLog, Delay 2000,
         MakeId ''EfGh'', UseMultiFileAuthState ''./temp/EfGh'', MakeWASocket ''./temp/EfGh'',
         Delay 1500, RequestPairingCode ''15551234567'',
         On ''./temp/EfGh'' CredsUpdate, On ''./temp/EfGh'' ConnectionUpdate]\<rparr>"

section \<open>Properties\<close>

subsection \<open>Helper facts\<close>

lemma sanitize_filter: "sanitize s = filter is_digit s"
  by (induction s) simp_all

lemmas prims = emit_def res_send_def existsSync_def rmSync_def removeFile_def process_exit_def
  subscribe_def setup_failed_def export_failed_def cresFilePath_def

lemma guarded_step_refl: "guarded_step w w"
  by (simp add: guarded_step_def)

lemma guarded_step_trans: "guarded_step w w' \<Longrightarrow> guarded_step w' w'' \<Longrightarrow> guarded_step w w''"
  by (auto simp: guarded_step_def)

lemma guarded_step_inv: "guarded_step w w' \<Longrightarrow> reply_inv w \<Longrightarrow> reply_inv w'"
  by (auto simp: guarded_step_def reply_inv_def)

lemma guarded_step_sent:
  "guarded_step w w' \<Longrightarrow> headersSent w \<Longrightarrow> headersSent w' \<and> replies w' = replies w"
  by (auto simp: guarded_step_def)

lemma gs_generate:
  "raw \<noteq> [] \<Longrightarrow> guarded_step w (generatePairingCodeAndConnect (Some raw) e w)"
  by (auto simp: guarded_step_def replies_def generatePairingCodeAndConnect_def prims Let_def
      split: sum.splits option.splits)

lemma gs_generate_first:
  "\<not> headersSent w \<Longrightarrow> guarded_step w (generatePairingCodeAndConnect number e w)"
  by (auto simp: guarded_step_def replies_def generatePairingCodeAndConnect_def prims Let_def
      split: sum.splits option.splits)

lemma gs_on_open: "guarded_step w (snd (on_open dir x w))"
  by (auto simp: guarded_step_def replies_def on_open_def prims Let_def
      split: sum.splits option.splits)

lemma gs_on_close:
  assumes "raw \<noteq> []"
  shows "guarded_step w (snd (on_close (Some raw) dir ld e w))"
proof -
  have pre: "guarded_step w (emit (Delay 2000) (snd (removeFile dir (emit ConsoleLog w))))"
    by (auto simp: guarded_step_def replies_def prims)
  have auth: "guarded_step w (process_exit (let w2 = snd (removeFile dir (emit ConsoleLog w)) in if \<not> headersSent w2 then res_send 401 AuthFailed w2 else w2))"
    by (auto simp: guarded_step_def replies_def prims Let_def)
  show ?thesis
    using guarded_step_trans [OF pre gs_generate [OF assms]] auth
    by (auto simp: on_close_def Let_def guarded_step_refl split: option.splits disconnect_error.splits)
qed

lemma gs_connection_update:
  "raw \<noteq> [] \<Longrightarrow> guarded_step w (snd (connection_update (Some raw) dir u x e w))"
  by (auto simp: connection_update_def gs_on_open gs_on_close guarded_step_refl
      split: option.splits connection.splits)

lemma gs_deliver: "raw \<noteq> [] \<Longrightarrow> guarded_step w (deliver (Some raw) s w)"
proof (cases s)
  case (CredsSaved k)
  then show ?thesis
    by (simp add: guarded_step_def replies_def)
next
  case (ConnUpdate k u x e)
  assume "raw \<noteq> []"
  with ConnUpdate show ?thesis
    by (simp add: gs_connection_update guarded_step_refl)
qed

lemma gs_foldl_deliver:
  "raw \<noteq> [] \<Longrightarrow> guarded_step w (foldl (\<lambda>w s. deliver (Some raw) s w) w stims)"
proof (induction stims arbitrary: w)
  case Nil
  show ?case by (simp add: guarded_step_refl)
next
  case (Cons s stims)
  from guarded_step_trans [OF gs_deliver [OF Cons.prems] Cons.IH [OF Cons.prems]]
  show ?case by simp
qed

lemma listeners_generate_missing:
  "missing number \<Longrightarrow> listeners (generatePairingCodeAndConnect number e w) = listeners w"
  by (auto simp: missing_def generatePairingCodeAndConnect_def prims Let_def)

lemma deliver_no_listeners: "listeners w = [] \<Longrightarrow> deliver number s w = w"
  by (cases s) auto

lemma foldl_deliver_no_listeners:
  "listeners w = [] \<Longrightarrow> foldl (\<lambda>w s. deliver number s w) w stims = w"
  by (induction stims) (auto simp: deliver_no_listeners)

lemma deliver_exited: "exited w \<Longrightarrow> deliver number s w = w"
  by (cases s) auto

lemma foldl_deliver_exited:
  "exited w \<Longrightarrow> foldl (\<lambda>w s. deliver number s w) w stims = w"
  by (induction stims) (auto simp: deliver_exited)

lemma reply_inv_initial: "reply_inv (initial fs)"
  by (simp add: reply_inv_def initial_def replies_def)

lemma gs_run_from:
  "guarded_step (generatePairingCodeAndConnect number e (initial fs)) (run number fs e stims)"
proof (cases "missing number")
  case True
  then have "listeners (generatePairingCodeAndConnect number e (initial fs)) = []"
    by (simp add: listeners_generate_missing initial_def)
  then show ?thesis
    by (simp add: run_def foldl_deliver_no_listeners guarded_step_refl)
next
  case False
  then obtain raw where "number = Some raw" "raw \<noteq> []"
    by (auto simp: missing_def)
  then show ?thesis
    by (simp add: run_def gs_foldl_deliver)
qed

lemma run_append:
  "run number fs e (stims @ later) = foldl (\<lambda>w s. deliver number s w) (run number fs e stims) later"
  by (simp add: run_def)

lemma gs_run_append: "guarded_step (run number fs e stims) (run number fs e (stims @ later))"
proof (cases "missing number")
  case True
  then have "listeners (generatePairingCodeAndConnect number e (initial fs)) = []"
    by (simp add: listeners_generate_missing initial_def)
  then show ?thesis
    by (simp add: run_def foldl_deliver_no_listeners guarded_step_refl)
next
  case False
  then obtain raw where "number = Some raw" "raw \<noteq> []"
    by (auto simp: missing_def)
  then show ?thesis
    by (simp add: run_append gs_foldl_deliver)
qed

lemma invocations_generate:
  "invocations (generatePairingCodeAndConnect number e w) = invocations w + 1"
  by (auto simp: invocations_def generatePairingCodeAndConnect_def prims Let_def
      split: sum.splits option.splits)

lemma js_replace_prefix: "js_replace pat [] (pat @ rest) = rest"
proof (cases "pat @ rest")
  case Nil
  then show ?thesis by simp
next
  case (Cons a list)
  then have p: "prefix pat (a # list)"
    by (metis prefixI)
  have d: "drop (length pat) (a # list) = rest"
    using Cons by (metis append_eq_conv_conj)
  have "js_replace pat [] (a # list) = rest"
    using p d by simp
  then show ?thesis
    by (simp add: Cons)
qed

lemma js_replace_absent: "\<not> occurs pat s \<Longrightarrow> js_replace pat rep s = s"
  by (induction s) auto

lemma removeFile_absent: "path \<notin> files (snd (removeFile path w))"
  by (simp add: removeFile_def existsSync_def rmSync_def emit_def inside_def)

lemma removeFile_clears:
  "path \<in> files w \<Longrightarrow> inside path q \<Longrightarrow> q \<notin> files (snd (removeFile path w))"
  by (simp add: removeFile_def existsSync_def rmSync_def emit_def)

lemma inside_credsFilePath: "inside dir (credsFilePath dir)"
  by (simp add: inside_def credsFilePath_def)

lemmas examples = env_registered_def env_unregistered_def export_ok_def export_upload_fails_def
  open_update_def close_update_def close_without_error_def listening_def linked_def
  env_retry_def env_socket_fails_def leftover_def retried_def

lemmas unfold_all = run_def initial_def generatePairingCodeAndConnect_def connection_update_def
  on_open_def on_close_def prims Let_def sessionDirPath_def credsFilePath_def is_digit_def
  replies_def messageToSelf_def sessionString_def inside_def invocations_def

subsection \<open>At most one reply\<close>

text \<open>
  Claim C1. Whatever the request, the initial files, the results of the collaborators
  and the events that follow, at most one reply is ever written to \<open>res\<close>;
  \<open>headersSent\<close> is set exactly when a reply has been written; and once it is set it
  stays set and no later event adds a reply. The only reply site without the
  \<open>headersSent\<close> test is the 400 of line 36, which is the first thing an invocation
  can do and is never reached on a retry, since a retry needs a handler and a request
  without a number registers none.
\<close>

theorem C1_at_most_one_reply:
  "length (replies (run number fs e stims)) \<le> 1 \<and>
   headersSent (run number fs e stims) = (replies (run number fs e stims) \<noteq> []) \<and>
   (headersSent (run number fs e stims) \<longrightarrow>
      headersSent (run number fs e (stims @ later)) \<and>
      replies (run number fs e (stims @ later)) = replies (run number fs e stims))"
proof -
  have "\<not> headersSent (initial fs)"
    by (simp add: initial_def)
  then have "guarded_step (initial fs) (generatePairingCodeAndConnect number e (initial fs))"
    by (rule gs_generate_first)
  then have "guarded_step (initial fs) (run number fs e stims)"
    using gs_run_from guarded_step_trans by blast
  then have "reply_inv (run number fs e stims)"
    using reply_inv_initial guarded_step_inv by blast
  then show ?thesis
    using guarded_step_sent [OF gs_run_append, of number fs e stims later]
    by (simp add: reply_inv_def)
qed

text \<open>
  A run on a workspace left on disk with registered credentials, in which the export
  fails after the socket opened (reply 500) and the socket then closes with status 428:
  the retry requests a new pairing code and writes nothing.
\<close>

theorem C1_at_most_one_reply_witness:
  "headersSent (run (Some ''+1 (555) 123-4567'') leftover env_registered
        [CredsSaved 0, ConnUpdate 0 open_update export_upload_fails env_unregistered]) \<and>
   replies (run (Some ''+1 (555) 123-4567'') leftover env_registered
        ([CredsSaved 0, ConnUpdate 0 open_update export_upload_fails env_unregistered]
         @ [ConnUpdate 0 (close_update 428) export_ok env_unregistered]))
     = [Send 500 UploadFailed]"
  using C1_at_most_one_reply [of "Some ''+1 (555) 123-4567''" leftover env_registered
        "[CredsSaved 0, ConnUpdate 0 open_update export_upload_fails env_unregistered]"
        "[ConnUpdate 0 (close_update 428) export_ok env_unregistered]"]
  by (simp add: unfold_all examples)

subsection \<open>Open event, credentials file missing\<close>

lemma on_open_missing_credentials:
  "credsFilePath dir \<notin> files w \<Longrightarrow>
   connection_update number dir open_update x e w =
     (Threw (ReferenceError ''cresFilePath is not defined''), emit (Delay 5000) w)"
  by (simp add: unfold_all examples)

text \<open>
  Claim C2 says that an Open event without the credentials file is answered with the
  500 reply, the socket closed and the workspace removed. The handler does none of
  this: after the delay it throws the \<open>ReferenceError\<close> of line 85. At the input
  below (the workspace exists, \<open>creds.json\<close> does not, nothing was sent) the trace
  holds the delay alone, no reply is written and the workspace is still there.
\<close>

theorem C2_missing_credentials_throws:
  "fst (connection_update (Some ''15551234567'') ''./temp/AbCd'' open_update export_ok
          env_unregistered listening) = Threw (ReferenceError ''cresFilePath is not defined'') \<and>
   trace (snd (connection_update (Some ''15551234567'') ''./temp/AbCd'' open_update export_ok
          env_unregistered listening)) = [Delay 5000] \<and>
   replies (snd (connection_update (Some ''15551234567'') ''./temp/AbCd'' open_update export_ok
          env_unregistered listening)) = [] \<and>
   ''./temp/AbCd'' \<in> files (snd (connection_update (Some ''15551234567'') ''./temp/AbCd''
          open_update export_ok env_unregistered listening))"
  by (simp add: unfold_all examples)

subsection \<open>Normalisation and validation of the number\<close>

text \<open>
  Claim C3 as stated fails: the test of line 34 reads the raw parameter, before line
  40 normalises it. The raw input \<open>abc\<close> is not empty, its normalisation is, and the
  request is not rejected: the workspace is created, the socket is built and a pairing
  code is requested for the empty number.
\<close>

theorem C3_counterexample:
  "sanitize ''abc'' = [] \<and>
   trace (generatePairingCodeAndConnect (Some ''abc'') env_unregistered (initial {})) =
     [MakeId ''EfGh'', UseMultiFileAuthState ''./temp/EfGh'', MakeWASocket ''./temp/EfGh'',
      Delay 1500, RequestPairingCode [], Send 200 (Code ''ABCD1234'')] \<and>
   ''./temp/EfGh'' \<in> files (generatePairingCodeAndConnect (Some ''abc'') env_unregistered (initial {}))"
  by (simp add: unfold_all examples)

text \<open>
  Claim C3, amended. Normalisation keeps exactly the digits, in their order. The request
  is rejected with the 400 reply, before any workspace or session is created, when the
  raw parameter is missing or the empty string. A raw parameter that is not empty is
  never rejected by the validation: the session is opened on the workspace, whatever
  the normalised number is.
\<close>

theorem C3_rejects_missing_raw_input:
  "sanitize raw = filter is_digit raw \<and>
   (missing number \<longrightarrow>
      trace (generatePairingCodeAndConnect number e w) =
        trace w @ [MakeId (makeid e), Send 400 PhoneRequired] \<and>
      files (generatePairingCodeAndConnect number e w) = files w \<and>
      listeners (generatePairingCodeAndConnect number e w) = listeners w) \<and>
   (raw \<noteq> [] \<longrightarrow>
      (\<exists>rest. trace (generatePairingCodeAndConnect (Some raw) e w) =
         trace w @ [MakeId (makeid e), UseMultiFileAuthState (sessionDirPath (makeid e))] @ rest \<and>
         Send 400 PhoneRequired \<notin> set rest))"
  by (auto simp: sanitize_filter missing_def generatePairingCodeAndConnect_def prims Let_def
      split: sum.splits option.splits)

theorem C3_rejects_missing_raw_input_witness:
  "sanitize ''+1 (555) 123-4567'' = filter is_digit ''+1 (555) 123-4567'' \<and>
   missing (Some []) \<and>
   trace (generatePairingCodeAndConnect (Some []) env_unregistered (initial {})) =
     [MakeId ''EfGh'', Send 400 PhoneRequired] \<and>
   files (generatePairingCodeAndConnect (Some []) env_unregistered (initial {})) = {} \<and>
   ''abc'' \<noteq> [] \<and>
   (\<exists>rest. trace (generatePairingCodeAndConnect (Some ''abc'') env_unregistered (initial {})) =
      [MakeId ''EfGh'', UseMultiFileAuthState ''./temp/EfGh''] @ rest \<and>
      Send 400 PhoneRequired \<notin> set rest)"
  using C3_rejects_missing_raw_input [of "''+1 (555) 123-4567''" "Some []" env_unregistered "initial {}"]
    C3_rejects_missing_raw_input [of "''abc''" "Some ''abc''" env_unregistered "initial {}"]
  by (simp add: missing_def initial_def env_unregistered_def sessionDirPath_def)

subsection \<open>The unregistered path\<close>

lemma unregistered_first_reply_no_listener:
  "raw \<noteq> [] \<Longrightarrow> useMultiFileAuthState e = Inr False \<Longrightarrow> makeWASocket e = None \<Longrightarrow>
   requestPairingCode e = Inr pairingCode \<Longrightarrow> \<not> headersSent w \<Longrightarrow>
   listeners (generatePairingCodeAndConnect (Some raw) e w) = listeners w \<and>
   trace (generatePairingCodeAndConnect (Some raw) e w) =
     trace w @ [MakeId (makeid e), UseMultiFileAuthState (sessionDirPath (makeid e)),
       MakeWASocket (sessionDirPath (makeid e)), Delay 1500, RequestPairingCode (sanitize raw),
       Send 200 (Code pairingCode)]"
  by (simp add: generatePairingCodeAndConnect_def prims Let_def)

text \<open>
  Claim C4 says that after the pairing code is returned the connection-status
  subscription is registered. The \<open>return\<close> of line 67 ends the function with the
  reply: for the request below the trace ends with the reply, no \<open>sock.ev.on\<close> is
  performed, no handler is registered, and the events that follow (credentials saved,
  Open, Close) change nothing.
\<close>

theorem C4_returns_before_subscribing:
  "trace (generatePairingCodeAndConnect (Some ''+1 (555) 123-4567'') env_unregistered (initial {})) =
     [MakeId ''EfGh'', UseMultiFileAuthState ''./temp/EfGh'', MakeWASocket ''./temp/EfGh'',
      Delay 1500, RequestPairingCode ''15551234567'', Send 200 (Code ''ABCD1234'')] \<and>
   listeners (generatePairingCodeAndConnect (Some ''+1 (555) 123-4567'') env_unregistered (initial {})) = [] \<and>
   run (Some ''+1 (555) 123-4567'') {} env_unregistered
     [CredsSaved 0, ConnUpdate 0 open_update export_ok env_unregistered,
      ConnUpdate 0 (close_update 428) export_ok env_unregistered] =
   generatePairingCodeAndConnect (Some ''+1 (555) 123-4567'') env_unregistered (initial {})"
  by (simp add: unfold_all examples)

subsection \<open>Close events\<close>

text \<open>
  Claim C5. A Close event whose error carries status 401 schedules no retry (the
  function is not invoked again), removes the workspace, writes the 401 reply exactly
  when nothing was written before, and ends with \<open>process.exit()\<close>: the trace is the
  log, the removal, the reply if any, and the exit, and no later event changes anything.
\<close>

theorem C5_unauthorized_close:
  "connection u = Some Close \<Longrightarrow> lastDisconnect u = Some l \<Longrightarrow>
   error l = Some (Boom 401 m) \<Longrightarrow>
   fst (connection_update number dir u x e w) = Exited \<and>
   trace (snd (connection_update number dir u x e w)) =
     trace w @ [ConsoleLog] @ (if dir \<in> files w then [RmSync dir] else []) @
     (if headersSent w then [] else [Send 401 AuthFailed]) @ [ProcessExit None] \<and>
   replies (snd (connection_update number dir u x e w)) =
     replies w @ (if headersSent w then [] else [Send 401 AuthFailed]) \<and>
   invocations (snd (connection_update number dir u x e w)) = invocations w \<and>
   dir \<notin> files (snd (connection_update number dir u x e w)) \<and>
   (dir \<in> files w \<longrightarrow> credsFilePath dir \<notin> files (snd (connection_update number dir u x e w))) \<and>
   exited (snd (connection_update number dir u x e w)) \<and>
   foldl (\<lambda>w s. deliver number s w) (snd (connection_update number dir u x e w)) stims =
     snd (connection_update number dir u x e w)"
proof -
  assume u: "connection u = Some Close" "lastDisconnect u = Some l" "error l = Some (Boom 401 m)"
  let ?w' = "snd (connection_update number dir u x e w)"
  have shape: "connection_update number dir u x e w =
      (Exited, process_exit (let w2 = snd (removeFile dir (emit ConsoleLog w))
                             in if \<not> headersSent w2 then res_send 401 AuthFailed w2 else w2))"
    using u by (simp add: connection_update_def on_close_def Let_def)
  have ex: "exited ?w'"
    by (simp add: shape process_exit_def emit_def)
  have "fst (connection_update number dir u x e w) = Exited"
    by (simp add: shape)
  moreover have "trace ?w' =
     trace w @ [ConsoleLog] @ (if dir \<in> files w then [RmSync dir] else []) @
     (if headersSent w then [] else [Send 401 AuthFailed]) @ [ProcessExit None]"
    by (simp add: shape prims Let_def)
  moreover have "replies ?w' = replies w @ (if headersSent w then [] else [Send 401 AuthFailed])"
    by (simp add: shape prims Let_def replies_def)
  moreover have "invocations ?w' = invocations w"
    by (simp add: shape prims Let_def invocations_def)
  moreover have "dir \<notin> files ?w'"
    by (simp add: shape prims Let_def inside_def)
  moreover have "dir \<in> files w \<longrightarrow> credsFilePath dir \<notin> files ?w'"
    by (simp add: shape prims Let_def inside_credsFilePath)
  moreover have "foldl (\<lambda>w s. deliver number s w) ?w' stims = ?w'"
    using ex by (rule foldl_deliver_exited)
  ultimately show ?thesis
    using ex by simp
qed

theorem C5_unauthorized_close_witness:
  "trace (snd (connection_update (Some ''15551234567'') ''./temp/AbCd'' (close_update 401)
       export_ok env_unregistered listening)) =
     [ConsoleLog, RmSync ''./temp/AbCd'', Send 401 AuthFailed, ProcessExit None] \<and>
   exited (snd (connection_update (Some ''15551234567'') ''./temp/AbCd'' (close_update 401)
       export_ok env_unregistered listening)) \<and>
   ''./temp/AbCd'' \<notin> files (snd (connection_update (Some ''15551234567'') ''./temp/AbCd''
       (close_update 401) export_ok env_unregistered listening))"
  using C5_unauthorized_close [of "close_update 401" "\<lparr>error = Some (Boom 401 ''Connection Closed'')\<rparr>"
      "''Connection Closed''" "Some ''15551234567''" "''./temp/AbCd''" export_ok env_unregistered
      listening "[]"]
  by (simp add: close_update_def listening_def)

text \<open>
  Claim C6 as stated fails in its last part: a reply can be sent on the retry path. The
  Close branch calls the whole function again, and when nothing was sent before, that
  call sends the new pairing code. Below, the socket of \<open>./temp/AbCd\<close> has sent no
  reply and closes with status 428.
\<close>

theorem C6_counterexample:
  "replies linked = [] \<and>
   trace (snd (connection_update (Some ''15551234567'') ''./temp/AbCd'' (close_update 428)
       export_ok env_unregistered linked)) =
     [ConsoleLog, RmSync ''./temp/AbCd'', Delay 2000,
      MakeId ''EfGh'', UseMultiFileAuthState ''./temp/EfGh'', MakeWASocket ''./temp/EfGh'',
      Delay 1500, RequestPairingCode ''15551234567'', Send 200 (Code ''ABCD1234'')] \<and>
   replies (snd (connection_update (Some ''15551234567'') ''./temp/AbCd'' (close_update 428)
       export_ok env_unregistered linked)) = [Send 200 (Code ''ABCD1234'')]"
  by (simp add: unfold_all examples)

text \<open>
  Claim C6, amended. A Close event whose error carries any status but 401 invokes the
  function again, once, with the same request and response. At the moment of that call
  the log, the removal of the workspace and the delay of 2000 ms have happened, in this
  order; the workspace is gone; and nothing has been written to \<open>res\<close>. The call itself
  writes nothing when a reply was sent before the event, and at most one reply when none
  was: the new pairing code, when the new workspace holds no credentials, the session is
  set up and the code is obtained.
\<close>

theorem C6_transient_close_retries_once:
  "connection u = Some Close \<Longrightarrow> lastDisconnect u = Some l \<Longrightarrow>
   error l = Some (Boom statusCode m) \<Longrightarrow> statusCode \<noteq> 401 \<Longrightarrow>
   (\<exists>w3. connection_update number dir u x e w =
            (Returned, generatePairingCodeAndConnect number e w3) \<and>
          trace w3 = trace w @ [ConsoleLog] @ (if dir \<in> files w then [RmSync dir] else [])
                       @ [Delay 2000] \<and>
          dir \<notin> files w3 \<and>
          (dir \<in> files w \<longrightarrow> credsFilePath dir \<notin> files w3) \<and>
          headersSent w3 = headersSent w \<and> replies w3 = replies w \<and>
          listeners w3 = listeners w \<and> exited w3 = exited w \<and>
          invocations w3 = invocations w \<and>
          invocations (generatePairingCodeAndConnect number e w3) = invocations w + 1) \<and>
   (headersSent w \<and> \<not> missing number \<longrightarrow>
      replies (snd (connection_update number dir u x e w)) = replies w) \<and>
   (\<not> missing number \<longrightarrow>
      replies (snd (connection_update number dir u x e w)) = replies w \<or>
      (\<not> headersSent w \<and>
       (\<exists>a. replies (snd (connection_update number dir u x e w)) = replies w @ [a]))) \<and>
   (\<not> headersSent w \<and> number = Some raw \<and> raw \<noteq> [] \<and>
    credsFilePath (sessionDirPath (makeid e)) \<notin> files w \<and>
    useMultiFileAuthState e = Inr stored \<and> makeWASocket e = None \<and>
    requestPairingCode e = Inr pairingCode \<longrightarrow>
      replies (snd (connection_update number dir u x e w)) =
        replies w @ [Send 200 (Code pairingCode)])"
proof -
  assume u: "connection u = Some Close" "lastDisconnect u = Some l"
    "error l = Some (Boom statusCode m)" "statusCode \<noteq> 401"
  let ?w3 = "emit (Delay 2000) (snd (removeFile dir (emit ConsoleLog w)))"
  let ?r = "snd (connection_update number dir u x e w)"
  have shape: "connection_update number dir u x e w =
          (Returned, generatePairingCodeAndConnect number e ?w3)"
    using u by (simp add: connection_update_def on_close_def Let_def)
  have tr: "trace ?w3 =
      trace w @ [ConsoleLog] @ (if dir \<in> files w then [RmSync dir] else []) @ [Delay 2000]"
    by (simp add: prims)
  have gone: "dir \<notin> files ?w3"
    by (simp add: prims inside_def)
  have creds: "dir \<in> files w \<longrightarrow> credsFilePath dir \<notin> files ?w3"
    by (simp add: prims inside_credsFilePath)
  have same: "headersSent ?w3 = headersSent w" "replies ?w3 = replies w"
    "listeners ?w3 = listeners w" "exited ?w3 = exited w" "invocations ?w3 = invocations w"
    by (simp_all add: prims replies_def invocations_def)
  have first: "\<exists>w3. connection_update number dir u x e w =
            (Returned, generatePairingCodeAndConnect number e w3) \<and>
          trace w3 = trace w @ [ConsoleLog] @ (if dir \<in> files w then [RmSync dir] else [])
                       @ [Delay 2000] \<and>
          dir \<notin> files w3 \<and>
          (dir \<in> files w \<longrightarrow> credsFilePath dir \<notin> files w3) \<and>
          headersSent w3 = headersSent w \<and> replies w3 = replies w \<and>
          listeners w3 = listeners w \<and> exited w3 = exited w \<and>
          invocations w3 = invocations w \<and>
          invocations (generatePairingCodeAndConnect number e w3) = invocations w + 1"
    using shape tr gone creds same invocations_generate [of number e ?w3] by auto
  have step: "guarded_step w ?r" if present: "\<not> missing number"
  proof -
    from present obtain raw' where raw': "number = Some raw'" "raw' \<noteq> []"
      by (auto simp: missing_def)
    have "guarded_step ?w3 (generatePairingCodeAndConnect (Some raw') e ?w3)"
      using raw'(2) by (rule gs_generate)
    then have "guarded_step w (generatePairingCodeAndConnect (Some raw') e ?w3)"
      by (simp add: guarded_step_def same)
    then show ?thesis
      using shape by (simp add: raw')
  qed
  have second: "headersSent w \<and> \<not> missing number \<longrightarrow> replies ?r = replies w"
    using step by (auto simp: guarded_step_def)
  have third: "\<not> missing number \<longrightarrow>
      replies ?r = replies w \<or> (\<not> headersSent w \<and> (\<exists>a. replies ?r = replies w @ [a]))"
    using step by (auto simp: guarded_step_def)
  have fourth: "\<not> headersSent w \<and> number = Some raw \<and> raw \<noteq> [] \<and>
    credsFilePath (sessionDirPath (makeid e)) \<notin> files w \<and>
    useMultiFileAuthState e = Inr stored \<and> makeWASocket e = None \<and>
    requestPairingCode e = Inr pairingCode \<longrightarrow>
      replies ?r = replies w @ [Send 200 (Code pairingCode)]"
    using shape by (auto simp: generatePairingCodeAndConnect_def prims Let_def replies_def)
  from first second third fourth show ?thesis
    by blast
qed

theorem C6_transient_close_retries_once_witness:
  "(\<exists>w3. connection_update (Some ''15551234567'') ''./temp/AbCd'' (close_update 428)
            export_ok env_unregistered linked =
            (Returned, generatePairingCodeAndConnect (Some ''15551234567'') env_unregistered w3) \<and>
          trace w3 = [ConsoleLog, RmSync ''./temp/AbCd'', Delay 2000] \<and>
          ''./temp/AbCd'' \<notin> files w3 \<and> ''./temp/AbCd/creds.json'' \<notin> files w3 \<and>
          replies w3 = [] \<and>
          invocations (generatePairingCodeAndConnect (Some ''15551234567'') env_unregistered w3) = 1) \<and>
   replies (snd (connection_update (Some ''15551234567'') ''./temp/AbCd'' (close_update 428)
            export_ok env_unregistered (linked\<lparr>headersSent := True\<rparr>))) = [] \<and>
   replies (snd (connection_update (Some ''15551234567'') ''./temp/AbCd'' (close_update 428)
            export_ok env_unregistered linked)) = [Send 200 (Code ''ABCD1234'')]"
  using C6_transient_close_retries_once [of "close_update 428"
      "\<lparr>error = Some (Boom 428 ''Connection Closed'')\<rparr>" 428 "''Connection Closed''"
      "Some ''15551234567''" "''./temp/AbCd''" export_ok env_unregistered linked
      "''15551234567''" False "''ABCD1234''"]
    C6_transient_close_retries_once [of "close_update 428"
      "\<lparr>error = Some (Boom 428 ''Connection Closed'')\<rparr>" 428 "''Connection Closed''"
      "Some ''15551234567''" "''./temp/AbCd''" export_ok env_unregistered
      "linked\<lparr>headersSent := True\<rparr>"]
  by (auto simp: close_update_def linked_def listening_def replies_def invocations_def
      missing_def credsFilePath_def env_unregistered_def sessionDirPath_def)

text \<open>
  Claim C9. A Close event without \<open>lastDisconnect\<close>, or whose \<open>lastDisconnect\<close> has
  no error, leaves the whole state as it is: no removal, no reply, no retry, no exit.
\<close>

theorem C9_close_without_error_is_inert:
  "connection u = Some Close \<Longrightarrow>
   lastDisconnect u = None \<or> (\<exists>l. lastDisconnect u = Some l \<and> error l = None) \<Longrightarrow>
   connection_update number dir u x e w = (Returned, w)"
  by (auto simp: connection_update_def on_close_def)

theorem C9_close_without_error_is_inert_witness:
  "connection_update (Some ''15551234567'') ''./temp/AbCd'' close_without_error export_ok
     env_unregistered listening = (Returned, listening)"
  using C9_close_without_error_is_inert [of close_without_error "Some ''15551234567''"
      "''./temp/AbCd''" export_ok env_unregistered listening]
  by (simp add: close_without_error_def)

subsection \<open>Open event, credentials file present\<close>

text \<open>
  Claim C7 as stated fails: it promises the two messages and the process exit for every
  Open event that finds the credentials file. When the upload is rejected, the
  \<open>catch\<close> block of line 153 runs instead: no message is sent, the caller gets the 500
  reply and the process does not exit.
\<close>

theorem C7_counterexample:
  "trace (snd (connection_update (Some ''15551234567'') ''./temp/AbCd'' open_update
       export_upload_fails env_unregistered linked)) =
     [Delay 5000, Upload ''./temp/AbCd/creds.json'' ''255700000000:1@s.whatsapp.net.json'',
      ConsoleError, Send 500 UploadFailed, WsClose ''./temp/AbCd'', RmSync ''./temp/AbCd''] \<and>
   \<not> exited (snd (connection_update (Some ''15551234567'') ''./temp/AbCd'' open_update
       export_upload_fails env_unregistered linked))"
  by (simp add: unfold_all examples)

text \<open>
  Claim C7, amended. When the credentials file is present and the upload and both
  message sends succeed, the handler uploads once (the stream of \<open>creds.json\<close>, under
  the name \<open>sock.user.id\<close> with \<open>.json\<close> appended), sends the token message and then
  the description quoting it, both to \<open>sock.user.id\<close>, closes the socket, removes the
  workspace and exits the process; nothing is written to \<open>res\<close>.
\<close>

theorem C7_export_on_success:
  "connection u = Some Open \<Longrightarrow> dir \<in> files w \<Longrightarrow> credsFilePath dir \<in> files w \<Longrightarrow>
   upload x = Inr megaUrl \<Longrightarrow> sendMessage1 x = Inr sentMessage \<Longrightarrow>
   sendMessage2 x = Inr () \<Longrightarrow>
   fst (connection_update number dir u x e w) = Exited \<and>
   trace (snd (connection_update number dir u x e w)) =
     trace w @
     [Delay 5000,
      Upload (credsFilePath dir) (user_id x @ ''.json''),
      SendMessage (user_id x) (Text (messageToSelf megaUrl)) None,
      SendMessage (user_id x) (BotDescription (tanzaniaTime x) (tanzaniaDate x))
        (Some sentMessage),
      Delay 100, WsClose dir, RmSync dir, ConsoleLog, ProcessExit None] \<and>
   dir \<notin> files (snd (connection_update number dir u x e w)) \<and>
   credsFilePath dir \<notin> files (snd (connection_update number dir u x e w)) \<and>
   replies (snd (connection_update number dir u x e w)) = replies w \<and>
   exited (snd (connection_update number dir u x e w))"
  by (simp add: connection_update_def on_open_def prims Let_def replies_def inside_def
      credsFilePath_def)

theorem C7_export_on_success_witness:
  "trace (snd (connection_update (Some ''15551234567'') ''./temp/AbCd'' open_update export_ok
       env_unregistered linked)) =
     [Delay 5000,
      Upload ''./temp/AbCd/creds.json'' ''255700000000:1@s.whatsapp.net.json'',
      SendMessage ''255700000000:1@s.whatsapp.net'' (Text ''RAHEEM-XMD-3>>>ABC123'') None,
      SendMessage ''255700000000:1@s.whatsapp.net'' (BotDescription ''10:00:00'' ''02/11/2026'')
        (Some ''3EB0MSG1''),
      Delay 100, WsClose ''./temp/AbCd'', RmSync ''./temp/AbCd'', ConsoleLog, ProcessExit None] \<and>
   exited (snd (connection_update (Some ''15551234567'') ''./temp/AbCd'' open_update export_ok
       env_unregistered linked))"
  using C7_export_on_success [of open_update "''./temp/AbCd''" linked export_ok
      "''https://mega.nz/file/ABC123''" "''3EB0MSG1''" "Some ''15551234567''" env_unregistered]
  by (simp add: examples credsFilePath_def messageToSelf_def sessionString_def)

text \<open>
  Claim C8. The token of a locator that starts with \<open>https://mega.nz/file/\<close> is the
  locator with that prefix taken off, and a locator in which the prefix does not occur
  is its own token; for every locator, the message sent to \<open>sock.user.id\<close> after the
  upload is \<open>RAHEEM-XMD-3>>>\<close> followed by the token; and the number
  \<open>+1 (555) 123-4567\<close> is normalised to \<open>15551234567\<close>.
\<close>

theorem C8_token_in_self_message:
  "sessionString (''https://mega.nz/file/'' @ token) = token \<and>
   (\<not> occurs ''https://mega.nz/file/'' megaUrl \<longrightarrow> sessionString megaUrl = megaUrl) \<and>
   (connection u = Some Open \<and> credsFilePath dir \<in> files w \<and> upload x = Inr megaUrl \<longrightarrow>
      SendMessage (user_id x) (Text (''RAHEEM-XMD-3>>>'' @ sessionString megaUrl)) None
        \<in> set (trace (snd (connection_update number dir u x e w)))) \<and>
   sanitize ''+1 (555) 123-4567'' = ''15551234567''"
proof -
  have strip: "sessionString (''https://mega.nz/file/'' @ token) = token"
    unfolding sessionString_def by (rule js_replace_prefix)
  have keep: "\<not> occurs ''https://mega.nz/file/'' megaUrl \<longrightarrow> sessionString megaUrl = megaUrl"
    unfolding sessionString_def by (simp add: js_replace_absent)
  have sent: "connection u = Some Open \<and> credsFilePath dir \<in> files w \<and> upload x = Inr megaUrl \<longrightarrow>
      SendMessage (user_id x) (Text (''RAHEEM-XMD-3>>>'' @ sessionString megaUrl)) None
        \<in> set (trace (snd (connection_update number dir u x e w)))"
    by (auto simp: messageToSelf_def connection_update_def on_open_def prims Let_def
        split: sum.splits)
  have number: "sanitize ''+1 (555) 123-4567'' = ''15551234567''"
    by (simp add: is_digit_def)
  from strip keep sent number show ?thesis
    by blast
qed

theorem C8_token_in_self_message_witness:
  "sessionString (''https://mega.nz/file/'' @ ''ABC123'') = ''ABC123'' \<and>
   \<not> occurs ''https://mega.nz/file/'' ''https://storage.example/file/ABC123'' \<and>
   sessionString ''https://storage.example/file/ABC123'' = ''https://storage.example/file/ABC123'' \<and>
   SendMessage ''255700000000:1@s.whatsapp.net'' (Text ''RAHEEM-XMD-3>>>ABC123'') None
     \<in> set (trace (snd (connection_update (Some ''15551234567'') ''./temp/AbCd'' open_update
          export_ok env_unregistered linked)))"
  using C8_token_in_self_message [of "''ABC123''" "''https://mega.nz/file/ABC123''" open_update
      "''./temp/AbCd''" linked export_ok "Some ''15551234567''" env_unregistered]
    C8_token_in_self_message [of "''ABC123''" "''https://storage.example/file/ABC123''"]
  by (simp add: examples credsFilePath_def sessionString_def)

subsection \<open>Retries\<close>

text \<open>
  With fresh ids a socket carries the handler only after the caller has had its reply:
  a session on a fresh workspace is not registered, and on that path the listeners are
  registered only when \<open>res.headersSent\<close> holds. Every step keeps this.
\<close>

lemma fresh_id_before_retry:
  "fresh_id w sessionId \<Longrightarrow>
   fresh_id (emit (Delay 2000) (snd (removeFile dir (emit ConsoleLog w)))) sessionId"
  by (auto simp: fresh_id_def prims)

lemma fresh_generate_replied:
  "fresh_id w (makeid e) \<Longrightarrow> replied_before_listening w \<Longrightarrow>
   replied_before_listening (generatePairingCodeAndConnect number e w)"
  by (auto simp: fresh_id_def replied_before_listening_def generatePairingCodeAndConnect_def
      prims Let_def split: sum.splits option.splits)

lemma on_open_replied:
  "replied_before_listening w \<Longrightarrow> replied_before_listening (snd (on_open dir x w))"
  by (auto simp: replied_before_listening_def on_open_def prims Let_def
      split: sum.splits option.splits)

lemma on_close_replied:
  assumes "fresh_id w (makeid e)" and "replied_before_listening w"
  shows "replied_before_listening (snd (on_close number dir ld e w))"
proof -
  let ?w3 = "emit (Delay 2000) (snd (removeFile dir (emit ConsoleLog w)))"
  have "replied_before_listening ?w3"
    using assms(2) by (auto simp: replied_before_listening_def prims)
  with fresh_id_before_retry [OF assms(1)]
  have retry: "replied_before_listening (generatePairingCodeAndConnect number e ?w3)"
    by (rule fresh_generate_replied)
  have auth: "replied_before_listening
      (process_exit (let w2 = snd (removeFile dir (emit ConsoleLog w))
                     in if \<not> headersSent w2 then res_send 401 AuthFailed w2 else w2))"
    using assms(2) by (auto simp: replied_before_listening_def prims Let_def)
  show ?thesis
    using retry auth assms(2)
    by (auto simp: on_close_def Let_def split: option.splits disconnect_error.splits)
qed

lemma connection_update_replied:
  "fresh_id w (makeid e) \<Longrightarrow> replied_before_listening w \<Longrightarrow>
   replied_before_listening (snd (connection_update number dir u x e w))"
  by (auto simp: connection_update_def on_open_replied on_close_replied
      split: option.splits connection.splits)

lemma deliver_replied:
  "fresh_stimulus w s \<Longrightarrow> replied_before_listening w \<Longrightarrow>
   replied_before_listening (deliver number s w)"
proof (cases s)
  case (CredsSaved k)
  assume "replied_before_listening w"
  with CredsSaved show ?thesis
    by (simp add: replied_before_listening_def)
next
  case (ConnUpdate k u x e)
  assume "fresh_stimulus w s" "replied_before_listening w"
  with ConnUpdate show ?thesis
    by (simp add: connection_update_replied)
qed

lemma foldl_deliver_replied:
  "fresh_stimuli number w stims \<Longrightarrow> replied_before_listening w \<Longrightarrow>
   replied_before_listening (foldl (\<lambda>w s. deliver number s w) w stims)"
  by (induction stims arbitrary: w) (simp_all add: deliver_replied)

lemma fresh_run_replied:
  "fresh_id (initial fs) (makeid e) \<Longrightarrow>
   fresh_stimuli number (generatePairingCodeAndConnect number e (initial fs)) stims \<Longrightarrow>
   replied_before_listening (run number fs e stims)"
  unfolding run_def
  by (rule foldl_deliver_replied, assumption, rule fresh_generate_replied)
     (simp_all add: replied_before_listening_def initial_def)

text \<open>The state \<open>retried\<close> is the one that the run described with it ends in.\<close>

lemma retried_reachable:
  "run (Some ''+1 (555) 123-4567'') leftover env_registered
     [ConnUpdate 0 open_update export_upload_fails env_unregistered,
      ConnUpdate 0 (close_update 428) export_ok env_unregistered] = retried"
  by (auto simp: unfold_all examples)




end
